theory Spec2Isabelle
  imports Main
begin

section \<open>Strings and character classes\<close>

text \<open>
  The program is \<^verbatim>\<open>src/kolm/normalize.py\<close>, read as Python 3 (the branches
  guarded by \<^verbatim>\<open>sys.version_info[0] == 2\<close> are not taken).  A Python 3
  \<^verbatim>\<open>str\<close> is a sequence of Unicode code points, so a string is a list of
  natural numbers and a character is its code point.
\<close>

type_synonym uchar = nat
type_synonym ustr = "nat list"

definition in_range :: "nat \<Rightarrow> nat \<Rightarrow> uchar \<Rightarrow> bool" where
  "in_range lo hi c = (lo \<le> c \<and> c \<le> hi)"

definition one_of :: "nat list \<Rightarrow> uchar \<Rightarrow> bool" where
  "one_of cs c = (c \<in> set cs)"

text \<open>The class \<^verbatim>\<open>[U+AC00-U+D7A3]\<close> of the source: the Hangul syllable blocks.\<close>

definition is_hangul :: "uchar \<Rightarrow> bool" where
  "is_hangul c = in_range 0xAC00 0xD7A3 c"

text \<open>
  \<^verbatim>\<open>\s\<close> of a \<^verbatim>\<open>str\<close> pattern and \<^verbatim>\<open>str.isspace\<close> test the same
  property of a character (Unicode white space as CPython defines it).
\<close>

definition is_space :: "uchar \<Rightarrow> bool" where
  "is_space c =
     (in_range 0x09 0x0D c \<or> in_range 0x1C 0x20 c \<or> c = 0x85 \<or> c = 0xA0 \<or> c = 0x1680
      \<or> in_range 0x2000 0x200A c \<or> c = 0x2028 \<or> c = 0x2029 \<or> c = 0x202F \<or> c = 0x205F
      \<or> c = 0x3000)"

definition is_upper :: "uchar \<Rightarrow> bool" where
  "is_upper c = in_range 0x41 0x5A c"

definition is_lower :: "uchar \<Rightarrow> bool" where
  "is_lower c = in_range 0x61 0x7A c"

definition is_latin :: "uchar \<Rightarrow> bool" where
  "is_latin c = (is_upper c \<or> is_lower c)"

text \<open>
  \<^verbatim>\<open>\d\<close> of a \<^verbatim>\<open>str\<close> pattern is any Unicode decimal digit (category Nd), not
  only \<^verbatim>\<open>0-9\<close>.  The table is that of Unicode 14.0, the database of CPython 3.11;
  every block starts at a digit zero, so \<^verbatim>\<open>int\<close> reads a digit as its offset in
  its block modulo ten.
\<close>

definition digit_blocks :: "(nat \<times> nat) list" where
  "digit_blocks =
     [(0x30, 0x39), (0x660, 0x669), (0x6F0, 0x6F9), (0x7C0, 0x7C9), (0x966, 0x96F),
      (0x9E6, 0x9EF), (0xA66, 0xA6F), (0xAE6, 0xAEF), (0xB66, 0xB6F), (0xBE6, 0xBEF),
      (0xC66, 0xC6F), (0xCE6, 0xCEF), (0xD66, 0xD6F), (0xDE6, 0xDEF), (0xE50, 0xE59),
      (0xED0, 0xED9), (0xF20, 0xF29), (0x1040, 0x1049), (0x1090, 0x1099), (0x17E0, 0x17E9),
      (0x1810, 0x1819), (0x1946, 0x194F), (0x19D0, 0x19D9), (0x1A80, 0x1A89),
      (0x1A90, 0x1A99), (0x1B50, 0x1B59), (0x1BB0, 0x1BB9), (0x1C40, 0x1C49),
      (0x1C50, 0x1C59), (0xA620, 0xA629), (0xA8D0, 0xA8D9), (0xA900, 0xA909),
      (0xA9D0, 0xA9D9), (0xA9F0, 0xA9F9), (0xAA50, 0xAA59), (0xABF0, 0xABF9),
      (0xFF10, 0xFF19), (0x104A0, 0x104A9), (0x10D30, 0x10D39), (0x11066, 0x1106F),
      (0x110F0, 0x110F9), (0x11136, 0x1113F), (0x111D0, 0x111D9), (0x112F0, 0x112F9),
      (0x11450, 0x11459), (0x114D0, 0x114D9), (0x11650, 0x11659), (0x116C0, 0x116C9),
      (0x11730, 0x11739), (0x118E0, 0x118E9), (0x11950, 0x11959), (0x11C50, 0x11C59),
      (0x11D50, 0x11D59), (0x11DA0, 0x11DA9), (0x16A60, 0x16A69), (0x16AC0, 0x16AC9),
      (0x16B50, 0x16B59), (0x1D7CE, 0x1D7FF), (0x1E140, 0x1E149), (0x1E2F0, 0x1E2F9),
      (0x1E950, 0x1E959), (0x1FBF0, 0x1FBF9)]"

definition is_digit :: "uchar \<Rightarrow> bool" where
  "is_digit c = list_ex (\<lambda>(lo, hi). in_range lo hi c) digit_blocks"

definition digit_value :: "uchar \<Rightarrow> int" where
  "digit_value c =
     (case find (\<lambda>(lo, hi). in_range lo hi c) digit_blocks of
        None \<Rightarrow> 0
      | Some (lo, hi) \<Rightarrow> int ((c - lo) mod 10))"

text \<open>\<^verbatim>\<open>int(numint)\<close> for a string of decimal digits (Python integers are unbounded).\<close>

definition int_of_digits :: "ustr \<Rightarrow> int" where
  "int_of_digits ds = foldl (\<lambda>a c. 10 * a + digit_value c) 0 ds"

definition is_ascii_digit :: "uchar \<Rightarrow> bool" where
  "is_ascii_digit c = in_range 0x30 0x39 c"

text \<open>\<^verbatim>\<open>.\<close> without the DOTALL flag: any character but the newline.\<close>

definition not_newline :: "uchar \<Rightarrow> bool" where
  "not_newline c = (c \<noteq> 0x0A)"

text \<open>The logograph class of the source: \<^verbatim>\<open>[U+4E00-U+9FA5 U+8C48-U+9F8E]\<close>.\<close>

definition is_hanja :: "uchar \<Rightarrow> bool" where
  "is_hanja c = (in_range 0x4E00 0x9FA5 c \<or> in_range 0x8C48 0x9F8E c)"

text \<open>\<^verbatim>\<open>str.isspace\<close>: at least one character, and all of them white space.\<close>

definition isspace :: "ustr \<Rightarrow> bool" where
  "isspace s = (s \<noteq> [] \<and> list_all is_space s)"

section \<open>Regular expressions as Python's \<^verbatim>\<open>re\<close> matches them\<close>

text \<open>
  The constructs the patterns of the source use.  \<open>Cls p\<close> is one character of a class,
  \<open>Star\<close> and \<open>Opt\<close> are the greedy \<^verbatim>\<open>*\<close> and \<^verbatim>\<open>?\<close>, \<open>LazyStar\<close> is
  \<^verbatim>\<open>*?\<close>, \<open>Ahead\<close> is \<^verbatim>\<open>(?=...)\<close>, \<open>Behind\<close> is \<^verbatim>\<open>(?<=...)\<close> over a
  fixed sequence of classes and \<open>Bol\<close> is \<^verbatim>\<open>^\<close> without the MULTILINE flag.
  Groups only delimit: no pattern of the source refers back to one.
\<close>

datatype rx =
    Eps
  | Cls "uchar \<Rightarrow> bool"
  | Seq rx rx
  | Alt rx rx
  | Opt rx
  | Star rx
  | LazyStar rx
  | Ahead rx
  | Behind "(uchar \<Rightarrow> bool) list"
  | Bol

definition Plus :: "rx \<Rightarrow> rx" where
  "Plus a = Seq a (Star a)"

definition Seqs :: "rx list \<Rightarrow> rx" where
  "Seqs rs = foldr Seq rs Eps"

definition Chr :: "uchar \<Rightarrow> rx" where
  "Chr c = Cls (\<lambda>x. x = c)"

definition Lit :: "ustr \<Rightarrow> rx" where
  "Lit cs = Seqs (map Chr cs)"

text \<open>
  A position in the subject string is the pair of the characters to its left, nearest
  first, and the characters to its right.  \<open>rx_match r st\<close> lists the positions where a
  match of \<open>r\<close> that starts at \<open>st\<close> can end, in the order in which the backtracking
  matcher tries them: the head is the match Python reports.
\<close>

fun rx_match :: "rx \<Rightarrow> ustr \<times> ustr \<Rightarrow> (ustr \<times> ustr) list" where
  "rx_match Eps st = [st]"
| "rx_match (Cls p) (l, s) = (case s of [] \<Rightarrow> [] | c # cs \<Rightarrow> if p c then [(c # l, cs)] else [])"
| "rx_match (Seq a b) st = concat (map (rx_match b) (rx_match a st))"
| "rx_match (Alt a b) st = rx_match a st @ rx_match b st"
| "rx_match (Opt a) st = rx_match a st @ [st]"
| "rx_match (Star a) st =
     concat (map (\<lambda>st'. if length (snd st') < length (snd st) then rx_match (Star a) st' else [])
                 (rx_match a st)) @ [st]"
| "rx_match (LazyStar a) st =
     st # concat (map (\<lambda>st'. if length (snd st') < length (snd st) then rx_match (LazyStar a) st' else [])
                      (rx_match a st))"
| "rx_match (Ahead a) st = (if rx_match a st = [] then [] else [st])"
| "rx_match (Behind ps) (l, s) =
     (if length ps \<le> length l \<and> list_all2 (\<lambda>p c. p c) (rev ps) (take (length ps) l)
      then [(l, s)] else [])"
| "rx_match Bol (l, s) = (if l = [] then [(l, s)] else [])"

declare rx_match.simps(6,7) [simp del]

text \<open>
  One attempt of the scanner at a position.  After an empty match the next attempt at the
  same position must consume a character (\<^verbatim>\<open>must_advance\<close> in CPython 3.7 and later).
\<close>

definition first_match :: "rx \<Rightarrow> bool \<Rightarrow> ustr \<times> ustr \<Rightarrow> (ustr \<times> ustr) option" where
  "first_match r must st =
     find (\<lambda>st'. \<not> must \<or> length (snd st') < length (snd st)) (rx_match r st)"

datatype piece = Gap uchar | Hit ustr

text \<open>
  The scan shared by \<^verbatim>\<open>re.sub\<close>, \<^verbatim>\<open>re.finditer\<close> and \<^verbatim>\<open>re.search\<close>: the
  subject cut into the successive non-overlapping matches (\<open>Hit\<close>, with the matched
  text) and the characters between them (\<open>Gap\<close>).
\<close>

function pieces :: "rx \<Rightarrow> bool \<Rightarrow> ustr \<times> ustr \<Rightarrow> piece list" where
  "pieces r must (l, s) =
     (case first_match r must (l, s) of
        Some (l', s') \<Rightarrow>
          Hit (take (length s - length s') s) # pieces r (length s' = length s) (l', s')
      | None \<Rightarrow> (case s of [] \<Rightarrow> [] | c # cs \<Rightarrow> Gap c # pieces r False (c # l, cs)))"
  by pat_completeness auto

lemma rx_match_suffix:
  "st' \<in> set (rx_match r st) \<Longrightarrow> \<exists>u. snd st = u @ snd st' \<and> fst st' = rev u @ fst st"
proof (induction r st arbitrary: st' rule: rx_match.induct)
  case (1 st)
  then show ?case by simp
next
  case (2 p l s)
  then show ?case by (cases s) (auto split: if_splits)
next
  case (3 a b st)
  from "3.prems" obtain m where m: "m \<in> set (rx_match a st)" and e: "st' \<in> set (rx_match b m)"
    by auto
  from "3.IH"(1)[OF m] obtain u where u: "snd st = u @ snd m" "fst m = rev u @ fst st" by blast
  from "3.IH"(2)[OF m e] obtain v where v: "snd m = v @ snd st'" "fst st' = rev v @ fst m" by blast
  show ?case by (rule exI[of _ "u @ v"]) (simp add: u v)
next
  case (4 a b st)
  from "4.prems" have "st' \<in> set (rx_match a st) \<or> st' \<in> set (rx_match b st)" by simp
  then show ?case using "4.IH" by blast
next
  case (5 a st)
  from "5.prems" have "st' \<in> set (rx_match a st) \<or> st' = st" by auto
  then show ?case using "5.IH" by auto
next
  case (6 a st)
  show ?case
  proof (cases "st' = st")
    case True
    then show ?thesis by simp
  next
    case False
    from "6.prems" have "st' \<in> set (concat (map (\<lambda>m. if length (snd m) < length (snd st)
        then rx_match (Star a) m else []) (rx_match a st)) @ [st])"
      by (subst (asm) rx_match.simps(6))
    with False obtain m where m: "m \<in> set (rx_match a st)"
      and lt: "length (snd m) < length (snd st)" and e: "st' \<in> set (rx_match (Star a) m)"
      by (auto split: if_splits)
    from "6.IH"(1)[OF m] obtain u where u: "snd st = u @ snd m" "fst m = rev u @ fst st" by blast
    from "6.IH"(2)[OF m lt e] obtain v where v: "snd m = v @ snd st'" "fst st' = rev v @ fst m"
      by blast
    show ?thesis by (rule exI[of _ "u @ v"]) (simp add: u v)
  qed
next
  case (7 a st)
  show ?case
  proof (cases "st' = st")
    case True
    then show ?thesis by simp
  next
    case False
    from "7.prems" have "st' \<in> set (st # concat (map (\<lambda>m. if length (snd m) < length (snd st)
        then rx_match (LazyStar a) m else []) (rx_match a st)))"
      by (subst (asm) rx_match.simps(7))
    with False obtain m where m: "m \<in> set (rx_match a st)"
      and lt: "length (snd m) < length (snd st)" and e: "st' \<in> set (rx_match (LazyStar a) m)"
      by (auto split: if_splits)
    from "7.IH"(1)[OF m] obtain u where u: "snd st = u @ snd m" "fst m = rev u @ fst st" by blast
    from "7.IH"(2)[OF m lt e] obtain v where v: "snd m = v @ snd st'" "fst st' = rev v @ fst m"
      by blast
    show ?thesis by (rule exI[of _ "u @ v"]) (simp add: u v)
  qed
next
  case (8 a st)
  then show ?case by (simp split: if_splits)
next
  case (9 ps l s)
  then show ?case by (simp split: if_splits)
next
  case (10 l s)
  then show ?case by (simp split: if_splits)
qed

lemma find_Some_mem: "find P xs = Some x \<Longrightarrow> x \<in> set xs \<and> P x"
  by (induction xs) (auto split: if_splits)

lemma first_match_length:
  assumes "first_match r must (l, s) = Some (l', s')"
  shows "length s' \<le> length s" and "must \<Longrightarrow> length s' < length s"
proof -
  from find_Some_mem[OF assms[unfolded first_match_def]]
  have mem: "(l', s') \<in> set (rx_match r (l, s))"
    and ok: "\<not> must \<or> length s' < length s"
    by simp_all
  from rx_match_suffix[OF mem] obtain u where "s = u @ s'" by auto
  then show "length s' \<le> length s" by simp
  from ok show "must \<Longrightarrow> length s' < length s" by simp
qed

termination pieces
  apply (relation "measure (\<lambda>(r, must, st). 2 * length (snd st) + (if must then 0 else 1))")
    apply simp_all
  subgoal for r must l s x2 x y
    using first_match_length[of r must l s x y] by (cases must) auto
  done

declare pieces.simps [simp del]

definition hits :: "piece list \<Rightarrow> ustr list" where
  "hits ps = concat (map (\<lambda>p. case p of Gap c \<Rightarrow> [] | Hit g \<Rightarrow> [g]) ps)"

fun spans :: "nat \<Rightarrow> piece list \<Rightarrow> (nat \<times> nat) list" where
  "spans k [] = []"
| "spans k (Gap c # ps) = spans (Suc k) ps"
| "spans k (Hit g # ps) = (k, k + length g) # spans (k + length g) ps"

text \<open>\<^verbatim>\<open>re.sub(pattern, repl, line)\<close> for a replacement without a backslash.\<close>

definition re_sub :: "rx \<Rightarrow> ustr \<Rightarrow> ustr \<Rightarrow> ustr" where
  "re_sub r repl line =
     concat (map (\<lambda>p. case p of Gap c \<Rightarrow> [c] | Hit g \<Rightarrow> repl) (pieces r False ([], line)))"

text \<open>\<^verbatim>\<open>[m.group() for m in re.finditer(pattern, line)]\<close> and the list of \<^verbatim>\<open>m.span()\<close>.\<close>

definition finditer_groups :: "rx \<Rightarrow> ustr \<Rightarrow> ustr list" where
  "finditer_groups r line = hits (pieces r False ([], line))"

definition finditer_spans :: "rx \<Rightarrow> ustr \<Rightarrow> (int \<times> int) list" where
  "finditer_spans r line =
     map (\<lambda>(a, b). (int a, int b)) (spans 0 (pieces r False ([], line)))"

text \<open>\<^verbatim>\<open>re.search(pattern, line)\<close>: the text of the first match, or \<open>None\<close>.\<close>

definition re_search :: "rx \<Rightarrow> ustr \<Rightarrow> ustr option" where
  "re_search r line = (case finditer_groups r line of [] \<Rightarrow> None | g # _ \<Rightarrow> Some g)"

section \<open>The replacement primitive\<close>

text \<open>
  \<^verbatim>\<open>line[0:a]\<close> and \<^verbatim>\<open>line[b:]\<close> for Python integers: a negative bound counts
  from the end, and a bound outside the string is clipped.
\<close>

definition slice_bound :: "ustr \<Rightarrow> int \<Rightarrow> nat" where
  "slice_bound line i =
     (if i < 0 then nat (max 0 (int (length line) + i)) else min (nat i) (length line))"

definition replaceSubstring :: "ustr \<Rightarrow> ustr \<Rightarrow> int \<times> int \<Rightarrow> ustr" where
  "replaceSubstring line newstr ituple =
     take (slice_bound line (fst ituple)) line @ newstr @ drop (slice_bound line (snd ituple)) line"

section \<open>Replacement templates\<close>

datatype py_error = UnboundLocalError | IndexError | AttributeError | TemplateError

text \<open>
  \<^verbatim>\<open>re.sub\<close> reads a replacement string as a template: a backslash starts an escape.
  The patterns that take a computed replacement have no group, so the only reference
  that resolves is \<^verbatim>\<open>\g<0>\<close>, the whole match (group names are read as CPython 3.12
  does: decimal digits only); every escape that \<^verbatim>\<open>re\<close> refuses is \<open>TemplateError\<close>.
\<close>

datatype tpart = TChr uchar | TGroup0

definition is_octal :: "uchar \<Rightarrow> bool" where
  "is_octal c = in_range 0x30 0x37 c"

definition octal_value :: "ustr \<Rightarrow> nat" where
  "octal_value ds = foldl (\<lambda>a c. 8 * a + (c - 0x30)) 0 ds"

definition escape_char :: "uchar \<Rightarrow> uchar option" where
  "escape_char e =
     (if e = 0x61 then Some 0x07 else if e = 0x62 then Some 0x08 else if e = 0x66 then Some 0x0C
      else if e = 0x6E then Some 0x0A else if e = 0x72 then Some 0x0D else if e = 0x74 then Some 0x09
      else if e = 0x76 then Some 0x0B else if e = 0x5C then Some 0x5C else None)"

definition tcons :: "tpart list \<Rightarrow> py_error + tpart list \<Rightarrow> py_error + tpart list" where
  "tcons ps r = (case r of Inl e \<Rightarrow> Inl e | Inr qs \<Rightarrow> Inr (ps @ qs))"

function parse_template :: "ustr \<Rightarrow> py_error + tpart list" where
  "parse_template s =
     (case s of
        [] \<Rightarrow> Inr []
      | c # cs \<Rightarrow>
          if c \<noteq> 0x5C then tcons [TChr c] (parse_template cs)
          else (case cs of
             [] \<Rightarrow> Inl TemplateError
           | e # es \<Rightarrow>
               if e = 0x67 then
                 (case es of
                    [] \<Rightarrow> Inl TemplateError
                  | b # bs \<Rightarrow>
                      if b \<noteq> 0x3C \<or> dropWhile (\<lambda>x. x \<noteq> 0x3E) bs = []
                         \<or> takeWhile (\<lambda>x. x \<noteq> 0x3E) bs = []
                         \<or> \<not> list_all (\<lambda>x. x = 0x30) (takeWhile (\<lambda>x. x \<noteq> 0x3E) bs)
                      then Inl TemplateError
                      else tcons [TGroup0] (parse_template (tl (dropWhile (\<lambda>x. x \<noteq> 0x3E) bs))))
               else if e = 0x30 then
                 tcons [TChr (octal_value (takeWhile is_octal (take 2 es)) mod 256)]
                   (parse_template (drop (length (takeWhile is_octal (take 2 es))) es))
               else if is_ascii_digit e then
                 (case es of
                    d1 # d2 # ds \<Rightarrow>
                      if is_octal e \<and> is_octal d1 \<and> is_octal d2 \<and> octal_value [e, d1, d2] \<le> 255
                      then tcons [TChr (octal_value [e, d1, d2])] (parse_template ds)
                      else Inl TemplateError
                  | _ \<Rightarrow> Inl TemplateError)
               else (case escape_char e of
                  Some x \<Rightarrow> tcons [TChr x] (parse_template es)
                | None \<Rightarrow>
                    if is_latin e then Inl TemplateError
                    else tcons [TChr 0x5C, TChr e] (parse_template es))))"
  by pat_completeness auto
termination
  apply (relation "measure length")
  apply (auto simp: less_Suc_eq_le)
  subgoal for bs
    using length_dropWhile_le[of "\<lambda>x. x \<noteq> 0x3E" bs] by linarith
  done

declare parse_template.simps [simp del]

definition expand :: "tpart list \<Rightarrow> ustr \<Rightarrow> ustr" where
  "expand ps g = concat (map (\<lambda>p. case p of TChr c \<Rightarrow> [c] | TGroup0 \<Rightarrow> g) ps)"

text \<open>\<^verbatim>\<open>re.sub(pattern, repl, line)\<close> for a replacement computed at run time.\<close>

definition re_sub_template :: "rx \<Rightarrow> ustr \<Rightarrow> ustr \<Rightarrow> py_error + ustr" where
  "re_sub_template r repl line =
     (case parse_template repl of
        Inl e \<Rightarrow> Inl e
      | Inr ps \<Rightarrow>
          Inr (concat (map (\<lambda>p. case p of Gap c \<Rightarrow> [c] | Hit g \<Rightarrow> expand ps g)
                 (pieces r False ([], line)))))"

section \<open>The reading passes\<close>

text \<open>
  The services the passes call are not code of the repository; they are parameters:
  \<open>NumberWord_read n\<close> is \<^verbatim>\<open>NumberWord(n).read()\<close>, \<open>hanja_translate\<close> is
  \<^verbatim>\<open>hanja.translate(line, 'substitution')\<close>, \<open>Loanword_read\<close> is
  \<^verbatim>\<open>Loanword(alpha, 'ita').read()\<close>, and \<open>word_char\<close> is the Unicode table behind
  \<^verbatim>\<open>\w\<close>.
\<close>

record externals =
  NumberWord_read :: "int \<Rightarrow> ustr"
  hanja_translate :: "ustr \<Rightarrow> ustr"
  Loanword_read :: "ustr \<Rightarrow> ustr"
  word_char :: "uchar \<Rightarrow> bool"

text \<open>
  \<^verbatim>\<open>readNumber\<close>, \<^verbatim>\<open>readABC\<close> and \<^verbatim>\<open>readAlphabet\<close> are three copies of one
  loop.  It runs once per match of the first scan; each round scans again, takes the
  first match (\<^verbatim>\<open>while len(xs) > 0: x = xs[0]; break\<close> leaves \<open>x\<close> as it was when
  the scan is empty: unbound in the first round, the previous round's text later),
  converts it, and splices it in at \<^verbatim>\<open>idx[0]\<close>, which raises \<open>IndexError\<close> on an
  empty scan.  The state is the line and the variable that holds the match.
\<close>

definition rescan_step ::
  "rx \<Rightarrow> (ustr \<Rightarrow> py_error + ustr) \<Rightarrow> ustr \<times> ustr option \<Rightarrow> py_error + ustr \<times> ustr option" where
  "rescan_step r conv st =
     (let line = fst st;
          idx = finditer_spans r line;
          xs = finditer_groups r line;
          x = (case xs of [] \<Rightarrow> snd st | g # _ \<Rightarrow> Some g)
      in case x of
           None \<Rightarrow> Inl UnboundLocalError
         | Some x0 \<Rightarrow>
             (case conv x0 of
                Inl e \<Rightarrow> Inl e
              | Inr x1 \<Rightarrow>
                  (case idx of
                     [] \<Rightarrow> Inl IndexError
                   | ituple # _ \<Rightarrow> Inr (replaceSubstring line x1 ituple, Some x1))))"

primrec rescan_loop ::
  "rx \<Rightarrow> (ustr \<Rightarrow> py_error + ustr) \<Rightarrow> nat \<Rightarrow> ustr \<times> ustr option \<Rightarrow> py_error + ustr \<times> ustr option" where
  "rescan_loop r conv 0 st = Inr st"
| "rescan_loop r conv (Suc n) st =
     (case rescan_step r conv st of Inl e \<Rightarrow> Inl e | Inr st' \<Rightarrow> rescan_loop r conv n st')"

definition rescan :: "rx \<Rightarrow> (ustr \<Rightarrow> py_error + ustr) \<Rightarrow> ustr \<Rightarrow> py_error + ustr" where
  "rescan r conv line =
     (case rescan_loop r conv (length (finditer_groups r line)) (line, None) of
        Inl e \<Rightarrow> Inl e
      | Inr st \<Rightarrow> Inr (fst st))"

text \<open>A run of \<^verbatim>\<open>line = re.sub(k, v, line)\<close> over a table of single characters.\<close>

definition sub_table :: "(uchar \<times> ustr) list \<Rightarrow> ustr \<Rightarrow> ustr" where
  "sub_table tab line = foldl (\<lambda>acc kv. re_sub (Chr (fst kv)) (snd kv) acc) line tab"

subsection \<open>readNumber\<close>

text \<open>The pattern \<^verbatim>\<open>([+-]?\d+)[\.]?\d*\<close>.\<close>

definition num_rx :: rx where
  "num_rx = Seqs [Opt (Cls (one_of [0x2B, 0x2D])), Plus (Cls is_digit), Opt (Chr 0x2E),
                  Star (Cls is_digit)]"

text \<open>
  The substitutions of the floating case: the point becomes U+C810 (jeom) and each of
  \<^verbatim>\<open>0\<close> to \<^verbatim>\<open>9\<close> its syllable.
\<close>

definition float_table :: "(uchar \<times> ustr) list" where
  "float_table =
     [(0x2E, [0xC810]), (0x30, [0xC601]), (0x31, [0xC77C]), (0x32, [0xC774]), (0x33, [0xC0BC]),
      (0x34, [0xC0AC]), (0x35, [0xC624]), (0x36, [0xC721]), (0x37, [0xCE60]), (0x38, [0xD314]),
      (0x39, [0xAD6C])]"

definition read_num :: "(int \<Rightarrow> ustr) \<Rightarrow> ustr \<Rightarrow> py_error + ustr" where
  "read_num rd num =
     (if re_search (Chr 0x2E) num = None then
        (case re_search (Plus (Cls is_digit)) num of
           None \<Rightarrow> Inl AttributeError
         | Some numint \<Rightarrow> re_sub_template (Plus (Cls is_digit)) (rd (int_of_digits numint)) num)
      else
        (case re_search (Seq (Plus (Cls is_digit)) (Ahead (Chr 0x2E))) num of
           None \<Rightarrow> Inl AttributeError
         | Some numint \<Rightarrow>
             (case re_sub_template (Seq (Plus (Cls is_digit)) (Ahead (Chr 0x2E)))
                     (rd (int_of_digits numint)) num of
                Inl e \<Rightarrow> Inl e
              | Inr num1 \<Rightarrow> Inr (sub_table float_table num1))))"

definition readNumber :: "(int \<Rightarrow> ustr) \<Rightarrow> ustr \<Rightarrow> py_error + ustr" where
  "readNumber rd line = rescan num_rx (read_num rd) line"

subsection \<open>readHanja\<close>

definition readHanja :: "(ustr \<Rightarrow> ustr) \<Rightarrow> ustr \<Rightarrow> ustr" where
  "readHanja tr line =
     (if re_search (Plus (Cls is_hanja)) line \<noteq> None then
        (if re_search (Seq (Plus (Cls is_hangul)) (Plus (Cls is_hanja))) line \<noteq> None
         then re_sub (Plus (Cls is_hanja)) [] line
         else tr line)
      else line)"

subsection \<open>readABC\<close>

text \<open>The pattern \<^verbatim>\<open>[A-Z](?=[^a-z])\<close> and the table of letter names, A to Z.\<close>

definition abc_rx :: rx where
  "abc_rx = Seq (Cls is_upper) (Ahead (Cls (\<lambda>c. \<not> is_lower c)))"

definition abc_table :: "(uchar \<times> ustr) list" where
  "abc_table =
     [(0x41, [0xC5D0, 0xC774]), (0x42, [0xBE44]), (0x43, [0xC528]), (0x44, [0xB514]),
      (0x45, [0xC774]), (0x46, [0xC5D0, 0xD504]), (0x47, [0xC9C0]),
      (0x48, [0xC5D0, 0xC774, 0xCE58]), (0x49, [0xC544, 0xC774]), (0x4A, [0xC81C, 0xC774]),
      (0x4B, [0xCF00, 0xC774]), (0x4C, [0xC5D8]), (0x4D, [0xC5E0]), (0x4E, [0xC5D4]),
      (0x4F, [0xC624]), (0x50, [0xD53C]), (0x51, [0xD050]), (0x52, [0xC54C]),
      (0x53, [0xC5D0, 0xC2A4]), (0x54, [0xD2F0]), (0x55, [0xC720]), (0x56, [0xBE0C, 0xC774]),
      (0x57, [0xB354, 0xBE14, 0xC720]), (0x58, [0xC5D1, 0xC2A4]), (0x59, [0xC640, 0xC774]),
      (0x5A, [0xC9C0])]"

definition readABC :: "ustr \<Rightarrow> py_error + ustr" where
  "readABC line = rescan abc_rx (\<lambda>ABC. Inr (sub_table abc_table ABC)) line"

subsection \<open>readAlphabet\<close>

definition readAlphabet :: "(ustr \<Rightarrow> ustr) \<Rightarrow> ustr \<Rightarrow> py_error + ustr" where
  "readAlphabet lw line = rescan (Plus (Cls is_latin)) (\<lambda>alpha. Inr (lw alpha)) line"

subsection \<open>removeNonHangul and readHangulLetter\<close>

text \<open>The pattern \<^verbatim>\<open>[^U+AC00-U+D7A3\s]*\<close>.\<close>

definition removeNonHangul :: "ustr \<Rightarrow> ustr" where
  "removeNonHangul line = re_sub (Star (Cls (\<lambda>c. \<not> (is_hangul c \<or> is_space c)))) [] line"

text \<open>
  The table of \<^verbatim>\<open>readHangulLetter\<close>, in the order of the source: eleven plain
  consonants (U+3131 giyeok to U+314E hieut) and five doubled ones.
\<close>

definition jamo_table :: "(uchar \<times> ustr) list" where
  "jamo_table =
     [(0x3131, [0xAE30, 0xC5ED]), (0x3134, [0xB2C8, 0xC740]), (0x3137, [0xB514, 0xADFF]),
      (0x3139, [0xB9AC, 0xC744]), (0x3141, [0xBBF8, 0xC74C]), (0x3142, [0xBE44, 0xC74D]),
      (0x3145, [0xC2DC, 0xC637]), (0x3147, [0xC774, 0xC751]), (0x3148, [0xC9C0, 0xC752]),
      (0x314A, [0xCE58, 0xC753]), (0x314E, [0xD788, 0xC757]),
      (0x3132, [0xC30D, 0xAE30, 0xC5ED]), (0x3138, [0xC30D, 0xB514, 0xADFF]),
      (0x3143, [0xC30D, 0xBE44, 0xC74D]), (0x3146, [0xC30D, 0xC2DC, 0xC637]),
      (0x3149, [0xC30D, 0xC9C0, 0xC752])]"

definition readHangulLetter :: "ustr \<Rightarrow> ustr" where
  "readHangulLetter line = sub_table jamo_table line"

section \<open>The segmenter\<close>

text \<open>
  \<^verbatim>\<open>str.splitlines\<close>: a line ends at \<^verbatim>\<open>\n\<close>, \<^verbatim>\<open>\r\<close>, \<^verbatim>\<open>\r\n\<close>,
  \<^verbatim>\<open>\v\<close>, \<^verbatim>\<open>\f\<close>, U+1C, U+1D, U+1E, U+85, U+2028 or U+2029; the boundaries are
  dropped, and no empty line follows the last boundary.  The first argument holds the
  characters of the current line, last first.
\<close>

definition is_linebreak :: "uchar \<Rightarrow> bool" where
  "is_linebreak c = (in_range 0x0A 0x0D c \<or> in_range 0x1C 0x1E c \<or> c = 0x85 \<or> c = 0x2028 \<or> c = 0x2029)"

fun splitlines_from :: "ustr \<Rightarrow> ustr \<Rightarrow> ustr list" where
  "splitlines_from cur [] = (if cur = [] then [] else [rev cur])"
| "splitlines_from cur (c # cs) =
     (if c = 0x0D \<and> cs \<noteq> [] \<and> hd cs = 0x0A then rev cur # splitlines_from [] (tl cs)
      else if is_linebreak c then rev cur # splitlines_from [] cs
      else splitlines_from (c # cur) cs)"

definition splitlines :: "ustr \<Rightarrow> ustr list" where
  "splitlines s = splitlines_from [] s"

text \<open>The rewrites of \<^verbatim>\<open>bySentence\<close> on one line, in the order of the source.\<close>

definition sentence_marks :: "uchar \<Rightarrow> bool" where
  "sentence_marks = one_of [0x2E, 0x3F, 0x21]"

definition segment_rewrite :: "ustr \<Rightarrow> ustr" where
  "segment_rewrite line0 =
     (let line = re_sub (Chr 0x2026) [0x2E] line0;
          line = re_sub (Seq (Behind [\<lambda>c. c = 0x2E, is_upper]) (Chr 0x2E)) [] line;
          line = re_sub (Seqs [Behind [is_upper], Chr 0x2E, Ahead (Cls is_upper)]) [] line;
          line = re_sub (Plus (Chr 0x2E)) [0x2E] line;
          line = re_sub (Plus (Chr 0x3F)) [0x3F] line;
          line = re_sub (Plus (Chr 0x21)) [0x21] line;
          line = re_sub (Seq (Behind [sentence_marks]) (Cls (one_of [0x20, 0x2C]))) [0x0A] line;
          line = re_sub (Seqs [Behind [is_hangul], Cls sentence_marks, Ahead (Cls is_hangul)])
                   [0x2E, 0x0A] line
      in line)"

text \<open>A segment is kept when it is neither white space only nor empty.\<close>

definition keep_line :: "ustr \<Rightarrow> bool" where
  "keep_line s = (\<not> isspace s \<and> s \<noteq> [])"

definition bySentence :: "ustr list \<Rightarrow> ustr list" where
  "bySentence corpus =
     concat (map (\<lambda>line. filter keep_line (splitlines (segment_rewrite line))) corpus)"

section \<open>The normalizer\<close>

text \<open>
  The bracket classes of the bullet patterns: the opening brackets
  \<^verbatim>\<open>( [ <\<close> and U+3008, U+300A, U+3010, U+3014, and the closing ones
  \<^verbatim>\<open>) ] >\<close> and U+3009, U+300B, U+3011, U+3015.
\<close>

definition open_bracket :: "uchar \<Rightarrow> bool" where
  "open_bracket = one_of [0x28, 0x5B, 0x3C, 0x3008, 0x300A, 0x3010, 0x3014]"

definition close_bracket :: "uchar \<Rightarrow> bool" where
  "close_bracket = one_of [0x29, 0x5D, 0x3E, 0x3009, 0x300B, 0x3011, 0x3015]"

text \<open>
  The glued-Latin rule, \<^verbatim>\<open>(?<=[U+AC00-U+D7A3])[A-Za-z]+[ ]?[A-Za-z]*\<close> replaced by
  the empty string.
\<close>

definition glued_rx :: rx where
  "glued_rx = Seqs [Behind [is_hangul], Plus (Cls is_latin), Opt (Chr 0x20), Star (Cls is_latin)]"

definition delete_glued_latin :: "ustr \<Rightarrow> ustr" where
  "delete_glued_latin line = re_sub glued_rx [] line"

text \<open>The scheme alternatives of the web-address pattern.\<close>

definition web_scheme :: rx where
  "web_scheme =
     foldr Alt
       [Lit [0x66, 0x69, 0x6C, 0x65, 0x3A, 0x2F, 0x2F],
        Lit [0x67, 0x6F, 0x70, 0x68, 0x65, 0x72, 0x3A, 0x2F, 0x2F],
        Lit [0x6E, 0x65, 0x77, 0x73, 0x3A, 0x2F, 0x2F],
        Lit [0x6E, 0x6E, 0x74, 0x70, 0x3A, 0x2F, 0x2F],
        Lit [0x74, 0x65, 0x6C, 0x6E, 0x65, 0x74, 0x3A, 0x2F, 0x2F],
        Seqs [Lit [0x68, 0x74, 0x74, 0x70], Opt (Chr 0x73), Lit [0x3A, 0x2F, 0x2F]],
        Seqs [Lit [0x66, 0x74, 0x70], Opt (Chr 0x73), Lit [0x3A, 0x2F, 0x2F]],
        Lit [0x73, 0x66, 0x74, 0x70, 0x3A, 0x2F, 0x2F]]
       (Lit [0x77, 0x77, 0x77, 0x2E])"

definition host_char :: "uchar \<Rightarrow> bool" where
  "host_char c = (is_lower c \<or> is_ascii_digit c \<or> c = 0x2D)"

definition tld_char :: "uchar \<Rightarrow> bool" where
  "tld_char c = (is_lower c \<or> is_ascii_digit c)"

definition web_rx :: rx where
  "web_rx =
     Seqs [web_scheme,
           Plus (Seq (Plus (Cls host_char)) (Chr 0x2E)),
           Cls tld_char, Cls tld_char, Opt (Seq (Cls tld_char) (Opt (Cls tld_char))),
           Star (Cls (\<lambda>c. \<not> (in_range 0x3131 0xD7A3 c \<or> one_of [0x29, 0x5D, 0x2E, 0x2C, 0x27, 0x22] c
                                 \<or> is_space c)))]"

text \<open>The deletions and substitutions of \<^verbatim>\<open>normalize\<close> that need no service.\<close>

definition strip_number_bullet :: "ustr \<Rightarrow> ustr" where
  "strip_number_bullet line =
     re_sub (Seqs [Bol, Star (Cls is_space), Star (Cls open_bracket), Star (Cls is_space),
                   Plus (Cls is_digit), Cls (\<lambda>c. close_bracket c \<or> c = 0x2E),
                   Ahead (Plus (Cls (\<lambda>c. \<not> is_digit c)))]) [] line"

definition deletions :: "(uchar \<Rightarrow> bool) \<Rightarrow> ustr \<Rightarrow> ustr" where
  "deletions isword line0 =
     (let line = re_sub (Alt (Seqs [Lit [0x28, 0xC608, 0x3A], LazyStar (Cls not_newline), Chr 0x29])
                        (Alt (Seqs [Lit [0x5B, 0xC608, 0x3A], LazyStar (Cls not_newline), Chr 0x5D])
                             (Seqs [Bol, Star (Cls (one_of [0x20, 0x09])), Lit [0xC608, 0x3A],
                                    LazyStar (Cls not_newline)]))) [] line0;
          line = re_sub (Seqs [Bol, Star (Cls is_space), Star (Cls open_bracket), Star (Cls is_space),
                               Cls (\<lambda>c. in_range 0x3131 0x314E c \<or> is_hangul c), Cls close_bracket,
                               Star (Cls is_space), Ahead (Star (Cls is_hangul))]) [] line;
          line = re_sub (Seqs [Chr 0x28, Star (Cls (\<lambda>c. c \<noteq> 0x29)), Plus (Cls (\<lambda>c. c \<noteq> 0x29)),
                               Chr 0x29]) [] line;
          line = re_sub web_rx [] line;
          line = re_sub (Star (Cls (one_of [0x3161, 0x2D]))) [] line;
          line = re_sub (Star (Cls (one_of [0x60, 0x27, 0x22, 0xFF02, 0x2018, 0x2019, 0x201C, 0x201D]))) [] line;
          line = re_sub (Seqs [Chr 0x3010, LazyStar (Cls not_newline), Lit [0xAE30, 0xC790],
                               Star (Cls (one_of [0x20, 0x09])), Chr 0x3011]) [] line;
          line = re_sub (Seqs [Chr 0x3014, LazyStar (Cls not_newline), Chr 0x3015]) [] line;
          line = re_sub (Star (Cls (one_of [0x5B, 0x3008, 0x3009, 0x300A, 0x300B, 0x300C, 0x300D, 0x300E, 0x300F, 0x7B, 0x7D, 0x5D]))) [] line;
          line = re_sub (Seqs [Plus (Cls isword), Star (Cls (\<lambda>c. isword c \<or> c = 0x2E)), Chr 0x40,
                               Plus (Cls isword), Star (Cls (\<lambda>c. isword c \<or> c = 0x2E)), Chr 0x2E,
                               Plus (Cls is_latin)]) [] line;
          line = re_sub (Chr 0x23) [] line;
          line = delete_glued_latin line
      in line)"

definition substitutions :: "ustr \<Rightarrow> ustr" where
  "substitutions line0 =
     (let line = re_sub (Cls (one_of [0x3D, 0x3A, 0x3B])) [0x0A] line0;
          line = re_sub (Chr 0xB7) [0x20] line;
          line = re_sub (Seqs [Behind [\<lambda>c. is_hangul c \<or> is_latin c], Chr 0x7E,
                               Ahead (Plus (Cls (\<lambda>c. is_hangul c \<or> is_latin c)))]) [0x20] line;
          line = re_sub (Chr 0x2192) [0x20] line
      in line)"

text \<open>
  One line through the passes of \<^verbatim>\<open>normalize\<close>, up to and including
  \<^verbatim>\<open>removeNonHangul\<close>; an exception of a pass ends the run.
\<close>

definition normalize_line :: "externals \<Rightarrow> ustr \<Rightarrow> py_error + ustr" where
  "normalize_line ext line0 =
     (case readNumber (NumberWord_read ext) (strip_number_bullet line0) of
        Inl e \<Rightarrow> Inl e
      | Inr line1 \<Rightarrow>
          (case readABC (readHanja (hanja_translate ext)
                  (readHangulLetter (substitutions (deletions (word_char ext) line1)))) of
             Inl e \<Rightarrow> Inl e
           | Inr line2 \<Rightarrow>
               (case readAlphabet (Loanword_read ext) line2 of
                  Inl e \<Rightarrow> Inl e
                | Inr line3 \<Rightarrow> Inr (removeNonHangul line3))))"

fun normalize :: "externals \<Rightarrow> ustr list \<Rightarrow> py_error + ustr list" where
  "normalize ext [] = Inr []"
| "normalize ext (line # corpus) =
     (case normalize_line ext line of
        Inl e \<Rightarrow> Inl e
      | Inr l \<Rightarrow>
          (case normalize ext corpus of
             Inl e \<Rightarrow> Inl e
           | Inr body \<Rightarrow> Inr ((if keep_line l then [l] else []) @ body)))"

section \<open>Properties of the replacement primitive\<close>

text \<open>
  C9.  For a span \<open>0 \<le> start \<le> end \<le> length s\<close> the result of
  \<^verbatim>\<open>replaceSubstring(s, r, (start, end))\<close> is \<^verbatim>\<open>s[0:start] + r + s[end:]\<close>; every
  character of \<open>s\<close> before \<open>start\<close> stays at its index, and every character at or after
  \<open>end\<close> follows the replacement, in order.
\<close>

theorem replaceSubstring_span:
  assumes "0 \<le> a" and "a \<le> b" and "b \<le> int (length s)"
  shows "replaceSubstring s r (a, b) = take (nat a) s @ r @ drop (nat b) s
    \<and> (\<forall>i < nat a. replaceSubstring s r (a, b) ! i = s ! i)
    \<and> (\<forall>j. nat b + j < length s \<longrightarrow>
           replaceSubstring s r (a, b) ! (nat a + length r + j) = s ! (nat b + j))
    \<and> length (replaceSubstring s r (a, b)) = nat a + length r + (length s - nat b)"
proof -
  from assms have sa: "slice_bound s a = nat a" and sb: "slice_bound s b = nat b"
    by (auto simp: slice_bound_def)
  from assms have la: "nat a \<le> length s" by linarith
  have eq: "replaceSubstring s r (a, b) = take (nat a) s @ r @ drop (nat b) s"
    by (simp add: replaceSubstring_def sa sb)
  have pre: "\<forall>i < nat a. replaceSubstring s r (a, b) ! i = s ! i"
    using la by (simp add: eq nth_append)
  have post: "\<forall>j. nat b + j < length s \<longrightarrow>
           replaceSubstring s r (a, b) ! (nat a + length r + j) = s ! (nat b + j)"
    using la by (simp add: eq nth_append min_absorb2)
  have len: "length (replaceSubstring s r (a, b)) = nat a + length r + (length s - nat b)"
    using la by (simp add: eq min_absorb2)
  from eq pre post len show ?thesis by blast
qed

theorem replaceSubstring_span_witness:
  "replaceSubstring [1, 2, 3, 4, 5] [9, 9, 9] (1, 3) = [1, 9, 9, 9, 4, 5]
   \<and> replaceSubstring [1, 2, 3, 4, 5] [9, 9, 9] (1, 3) ! 0 = 1
   \<and> replaceSubstring [1, 2, 3, 4, 5] [9, 9, 9] (1, 3) ! (nat 1 + length [9::nat, 9, 9] + 1) = 5"
proof -
  have h: "(0::int) \<le> 1" "(1::int) \<le> 3" "(3::int) \<le> int (length [1::nat, 2, 3, 4, 5])"
    by simp_all
  from replaceSubstring_span[OF h, of "[9, 9, 9]"]
  show ?thesis by simp
qed

end
